theory Spec2Isabelle
  imports Complex_Main
begin

section \<open>Data model (app/data/types.ts)\<close>

text \<open>
  A TypeScript \<^verbatim>\<open>number\<close> is modelled by an exact rational: the arithmetic of the
  simulator (one product, one sum, \<^verbatim>\<open>Math.min\<close>, \<^verbatim>\<open>Math.max\<close>) is read over
  finite values, without the rounding of IEEE doubles and without NaN or the
  infinities. An optional field \<^verbatim>\<open>f?: T\<close> is a \<open>T option\<close>, where \<open>None\<close> is
  \<^verbatim>\<open>undefined\<close>. A value of the union \<^verbatim>\<open>number | string\<close> carries its tag.
\<close>

type_synonym number = rat

datatype js_value = Num number | Str string

datatype NodeType =
  NT_user | NT_wallet | NT_terminal | NT_merchant | NT_processor | NT_network
| NT_issuer | NT_bank | NT_settlement | NT_gateway | NT_acquirer | NT_other

record PaymentNode =
  node_id :: string
  node_label :: string
  tooltip :: string
  node_type :: NodeType

record PaymentEdge =
  edge_from :: string
  edge_to :: string
  edge_label :: string

record PaymentMetrics =
  authTime :: string
  metrics_settlementTime :: string
  consumerFee :: string
  merchantFee :: string

text \<open>
  \<^verbatim>\<open>FeeModel.type\<close> is declared as a union of six string literals. The component
  compares it with \<^verbatim>\<open>===\<close> against literals and has a fall-through for anything
  else, so the discriminant is kept as the string it is at run time.
\<close>

record FeeModel =
  fm_type :: string
  percent :: "number option"
  fixed :: "number option"
  flat :: "number option"
  cap :: "number option"
  flatDomestic :: "number option"
  flatInternational :: "number option"
  internationalMultiplier :: "number option"

definition FeeModel_types :: "string list" where
  "FeeModel_types =
     [''percent_plus_fixed'', ''flat'', ''free'', ''wire'',
      ''percent_plus_fixed_with_cap'', ''flat_with_international'']"

record SettlementConfig =
  domesticDays :: js_value
  internationalDays :: "js_value option"
  settlementTimingLabel :: "string option"

record EconomicsConfig =
  feeModel :: FeeModel
  settlement :: SettlementConfig

record Scenario =
  scenario_id :: string
  title :: string
  subtitle :: string
  shortName :: "string option"
  railCategory :: "string option"
  processingType :: "string option"
  transactionType :: "string option"
  tags :: "string list"
  nodes :: "PaymentNode list"
  edges :: "PaymentEdge list"
  metrics :: PaymentMetrics
  commonFailures :: "string \<times> string \<times> string"
  whyThisRoute :: "string \<times> string \<times> string"
  insight :: "string option"
  economics :: "EconomicsConfig option"


section \<open>JavaScript truthiness\<close>

text \<open>
  The component tests values with \<^verbatim>\<open>!!x\<close>, \<^verbatim>\<open>if (x)\<close>, \<^verbatim>\<open>x && y\<close> and \<^verbatim>\<open>x || 0\<close>.
  A number is falsy when it is 0, a string when it is empty, and \<^verbatim>\<open>undefined\<close> is
  falsy.
\<close>

definition truthy_number :: "number \<Rightarrow> bool" where
  "truthy_number n = (n \<noteq> 0)"

definition truthy_string :: "string \<Rightarrow> bool" where
  "truthy_string s = (s \<noteq> [])"

definition truthy :: "js_value \<Rightarrow> bool" where
  "truthy v = (case v of Num n \<Rightarrow> truthy_number n | Str s \<Rightarrow> truthy_string s)"

definition truthy_opt :: "('a \<Rightarrow> bool) \<Rightarrow> 'a option \<Rightarrow> bool" where
  "truthy_opt t x = (case x of None \<Rightarrow> False | Some v \<Rightarrow> t v)"

text \<open>\<^verbatim>\<open>x || 0\<close> for an optional number \<^verbatim>\<open>x\<close>.\<close>

definition or_zero :: "number option \<Rightarrow> number" where
  "or_zero x = (case x of None \<Rightarrow> 0 | Some v \<Rightarrow> if truthy_number v then v else 0)"


section \<open>The cost and time simulator (app/components/CostTimeSimulator.tsx)\<close>

text \<open>
  \<^verbatim>\<open>
  const isInternational = !!economics.settlement.internationalDays ||
                          scenario.transactionType === 'International' ||
                          (economics.feeModel.type === 'flat_with_international');
  \<close>
\<close>

definition isInternational :: "Scenario \<Rightarrow> EconomicsConfig \<Rightarrow> bool" where
  "isInternational scenario econ =
     (truthy_opt truthy (internationalDays (settlement econ))
      \<or> transactionType scenario = Some ''International''
      \<or> fm_type (feeModel econ) = ''flat_with_international'')"

text \<open>
  The body of the \<^verbatim>\<open>feePerTransaction\<close> memo, as a function of the three values it
  closes over. \<^verbatim>\<open>feeModel\<close> is a required object field, so the guard
  \<^verbatim>\<open>if (!economics.feeModel) return 0\<close> never fires on a value of the declared type.
  The chain of \<^verbatim>\<open>else if\<close> on \<^verbatim>\<open>feeModel.type\<close> keeps its order; when no branch
  matches, \<^verbatim>\<open>fee\<close> keeps its initial value 0.
\<close>

definition feePerTransaction :: "number \<Rightarrow> FeeModel \<Rightarrow> bool \<Rightarrow> number" where
  "feePerTransaction amount fm intl =
     (let fee =
        (if fm_type fm = ''percent_plus_fixed'' then
           amount * or_zero (percent fm) + or_zero (fixed fm)
         else if fm_type fm = ''percent_plus_fixed_with_cap'' then
           (let calculatedFee = amount * or_zero (percent fm) + or_zero (fixed fm)
            in case cap fm of
                 Some c \<Rightarrow> min calculatedFee c
               | None \<Rightarrow> calculatedFee)
         else if fm_type fm = ''flat'' then
           or_zero (flat fm)
         else if fm_type fm = ''flat_with_international'' then
           (if intl then or_zero (flatInternational fm) else or_zero (flatDomestic fm))
         else if fm_type fm = ''wire'' then
           (let fee0 = or_zero (flat fm)
            in case internationalMultiplier fm of
                 Some m \<Rightarrow> if intl \<and> truthy_number m then fee0 * m else fee0
               | None \<Rightarrow> fee0)
         else if fm_type fm = ''free'' then 0
         else 0)
      in max 0 fee)"

definition monthlyFees :: "number \<Rightarrow> number \<Rightarrow> number" where
  "monthlyFees fee monthlyVolume = fee * monthlyVolume"

text \<open>
  \<^verbatim>\<open>
  if (economics.settlement.settlementTimingLabel) return economics.settlement.settlementTimingLabel;
  if (isInternational && economics.settlement.internationalDays) return economics.settlement.internationalDays;
  return economics.settlement.domesticDays;
  \<close>
  The value is handed to the renderer unchanged, with its tag.
\<close>

definition settlementTime :: "SettlementConfig \<Rightarrow> bool \<Rightarrow> js_value" where
  "settlementTime st intl =
     (let derived =
        (case internationalDays st of
           Some d \<Rightarrow> if intl \<and> truthy d then d else domesticDays st
         | None \<Rightarrow> domesticDays st)
      in case settlementTimingLabel st of
           Some l \<Rightarrow> if truthy_string l then Str l else derived
         | None \<Rightarrow> derived)"

text \<open>
  What one render of the component computes from its prop \<^verbatim>\<open>scenario\<close> and its two
  pieces of state (\<^verbatim>\<open>amount\<close>, \<^verbatim>\<open>monthlyVolume\<close>): \<open>None\<close> is the \<^verbatim>\<open>return null\<close>
  taken when the scenario has no economics; otherwise the four values the markup
  shows (the badge, the two currency amounts before formatting, the settlement
  time).
\<close>

record SimulatorView =
  view_isInternational :: bool
  view_feePerTransaction :: number
  view_monthlyFees :: number
  view_settlementTime :: js_value

definition CostTimeSimulator :: "Scenario \<Rightarrow> number \<Rightarrow> number \<Rightarrow> SimulatorView option" where
  "CostTimeSimulator scenario amount monthlyVolume =
     (case economics scenario of
        None \<Rightarrow> None
      | Some econ \<Rightarrow>
          (let intl = isInternational scenario econ;
               fee = feePerTransaction amount (feeModel econ) intl
           in Some \<lparr> view_isInternational = intl,
                     view_feePerTransaction = fee,
                     view_monthlyFees = monthlyFees fee monthlyVolume,
                     view_settlementTime = settlementTime (settlement econ) intl \<rparr>))"


section \<open>Concrete configurations\<close>

definition mk_feeModel :: "string \<Rightarrow> FeeModel" where
  "mk_feeModel t =
     \<lparr> fm_type = t, percent = None, fixed = None, flat = None, cap = None,
       flatDomestic = None, flatInternational = None, internationalMultiplier = None \<rparr>"

definition mk_scenario :: "string option \<Rightarrow> EconomicsConfig option \<Rightarrow> Scenario" where
  "mk_scenario tt econ =
     \<lparr> scenario_id = ''s'', title = ''t'', subtitle = ''u'', shortName = None,
       railCategory = None, processingType = None, transactionType = tt, tags = [],
       nodes = [], edges = [],
       metrics = \<lparr> authTime = '''', metrics_settlementTime = '''', consumerFee = '''',
                   merchantFee = '''' \<rparr>,
       commonFailures = (''a'', ''b'', ''c''), whyThisRoute = (''a'', ''b'', ''c''),
       insight = None, economics = econ \<rparr>"

definition mk_settlement :: "js_value \<Rightarrow> js_value option \<Rightarrow> string option \<Rightarrow> SettlementConfig" where
  "mk_settlement d i l =
     \<lparr> domesticDays = d, internationalDays = i, settlementTimingLabel = l \<rparr>"


text \<open>The fee models and settlement configurations the examples below are run on.\<close>

definition card_capped :: FeeModel where
  "card_capped =
     (mk_feeModel ''percent_plus_fixed_with_cap'')
       \<lparr> percent := Some 0.029, fixed := Some 0.30, cap := Some 1.80 \<rparr>"

definition card_no_cap :: FeeModel where
  "card_no_cap =
     (mk_feeModel ''percent_plus_fixed_with_cap'')
       \<lparr> percent := Some 0.029, fixed := Some 0.30 \<rparr>"

definition flat_30_50 :: FeeModel where
  "flat_30_50 =
     (mk_feeModel ''flat_with_international'')
       \<lparr> flatDomestic := Some 30, flatInternational := Some 50 \<rparr>"

definition wire_15 :: "number option \<Rightarrow> FeeModel" where
  "wire_15 m = (mk_feeModel ''wire'') \<lparr> flat := Some 15, internationalMultiplier := m \<rparr>"

definition mk_economics :: "FeeModel \<Rightarrow> SettlementConfig \<Rightarrow> EconomicsConfig" where
  "mk_economics fm st = \<lparr> feeModel = fm, settlement = st \<rparr>"


section \<open>Auxiliary facts\<close>

lemmas truthy_defs = truthy_def truthy_number_def truthy_string_def truthy_opt_def

lemmas mk_defs = mk_feeModel_def mk_scenario_def mk_settlement_def mk_economics_def

lemma or_zero_default: "or_zero x = (case x of None \<Rightarrow> 0 | Some v \<Rightarrow> v)"
  by (simp add: or_zero_def truthy_number_def split: option.split)

text \<open>A scenario with economics always renders: the view holds the four derived values.\<close>

lemma CostTimeSimulator_Some:
  "economics scenario = Some econ \<Longrightarrow>
   CostTimeSimulator scenario amount monthlyVolume =
     Some \<lparr> view_isInternational = isInternational scenario econ,
            view_feePerTransaction =
              feePerTransaction amount (feeModel econ) (isInternational scenario econ),
            view_monthlyFees =
              feePerTransaction amount (feeModel econ) (isInternational scenario econ)
                * monthlyVolume,
            view_settlementTime =
              settlementTime (settlement econ) (isInternational scenario econ) \<rparr>"
  by (simp add: CostTimeSimulator_def monthlyFees_def Let_def)


section \<open>Internationality\<close>

text \<open>
  C1. The derived flag \<open>isInternational\<close> is true exactly when
  \<^verbatim>\<open>settlement.internationalDays\<close> is truthy (a non-zero number or a non-empty
  string), or \<^verbatim>\<open>scenario.transactionType\<close> is \<^verbatim>\<open>"International"\<close>, or
  \<^verbatim>\<open>feeModel.type\<close> is \<^verbatim>\<open>"flat_with_international"\<close>; otherwise the transaction is
  domestic. The three tests have no effects, so taking the first true one gives
  the same flag as their disjunction.
\<close>

theorem isInternational_iff:
  "isInternational scenario econ \<longleftrightarrow>
     ((\<exists>n. internationalDays (settlement econ) = Some (Num n) \<and> n \<noteq> 0)
      \<or> (\<exists>s. internationalDays (settlement econ) = Some (Str s) \<and> s \<noteq> [])
      \<or> transactionType scenario = Some ''International''
      \<or> fm_type (feeModel econ) = ''flat_with_international'')"
  by (auto simp add: isInternational_def truthy_defs split: option.splits js_value.splits)

text \<open>
  Each of the three signals alone makes the flag true, and a domestic flat-fee
  scenario with no international days has it false.
\<close>

theorem isInternational_iff_witness:
  "isInternational (mk_scenario (Some ''Domestic'') None)
     (mk_economics (mk_feeModel ''flat'') (mk_settlement (Num 1) (Some (Str ''3-5 days'')) None))
   \<and> isInternational (mk_scenario (Some ''International'') None)
     (mk_economics (mk_feeModel ''flat'') (mk_settlement (Num 1) None None))
   \<and> isInternational (mk_scenario None None)
     (mk_economics flat_30_50 (mk_settlement (Num 1) None None))
   \<and> \<not> isInternational (mk_scenario (Some ''Domestic'') None)
     (mk_economics (mk_feeModel ''flat'') (mk_settlement (Num 1) None None))"
  using isInternational_iff
      [of "mk_scenario (Some ''Domestic'') None"
          "mk_economics (mk_feeModel ''flat'')
             (mk_settlement (Num 1) (Some (Str ''3-5 days'')) None)"]
    isInternational_iff
      [of "mk_scenario (Some ''International'') None"
          "mk_economics (mk_feeModel ''flat'') (mk_settlement (Num 1) None None)"]
    isInternational_iff
      [of "mk_scenario None None" "mk_economics flat_30_50 (mk_settlement (Num 1) None None)"]
    isInternational_iff
      [of "mk_scenario (Some ''Domestic'') None"
          "mk_economics (mk_feeModel ''flat'') (mk_settlement (Num 1) None None)"]
  by (simp add: mk_defs flat_30_50_def)

text \<open>
  C10. An \<^verbatim>\<open>internationalDays\<close> of numeric 0 is present but falsy. It adds nothing
  to the flag, which is then decided by the other two signals alone; and with no
  \<^verbatim>\<open>settlementTimingLabel\<close> the settlement time is \<^verbatim>\<open>domesticDays\<close>, never that 0,
  whatever the flag is.
\<close>

theorem internationalDays_zero_is_absent:
  assumes "internationalDays (settlement econ) = Some (Num 0)"
  shows "(isInternational scenario econ \<longleftrightarrow>
            transactionType scenario = Some ''International''
            \<or> fm_type (feeModel econ) = ''flat_with_international'')
         \<and> (settlementTimingLabel (settlement econ) = None \<longrightarrow>
              (\<forall>intl. settlementTime (settlement econ) intl = domesticDays (settlement econ)))"
  using assms
  by (simp add: isInternational_def settlementTime_def truthy_defs)

theorem internationalDays_zero_is_absent_witness:
  "\<not> isInternational (mk_scenario (Some ''Domestic'') None)
       (mk_economics (mk_feeModel ''flat'') (mk_settlement (Num 2) (Some (Num 0)) None))
   \<and> settlementTime (mk_settlement (Num 2) (Some (Num 0)) None)
        (isInternational (mk_scenario (Some ''Domestic'') None)
           (mk_economics (mk_feeModel ''flat'') (mk_settlement (Num 2) (Some (Num 0)) None)))
      = Num 2"
  using internationalDays_zero_is_absent
      [of "mk_economics (mk_feeModel ''flat'') (mk_settlement (Num 2) (Some (Num 0)) None)"
          "mk_scenario (Some ''Domestic'') None"]
  by (simp add: mk_defs)



section \<open>Settlement time\<close>

text \<open>
  C3. The settlement time is \<^verbatim>\<open>settlementTimingLabel\<close>, verbatim and as a string,
  when that label is present and non-empty; otherwise it is \<^verbatim>\<open>internationalDays\<close>
  when the transaction is international and \<^verbatim>\<open>internationalDays\<close> is present and
  truthy (a non-zero number or a non-empty string); otherwise it is
  \<^verbatim>\<open>domesticDays\<close>. The selected value is returned as it is stored: a day count
  stays a number and a free-text label stays a string.
\<close>

theorem settlementTime_selection:
  "(\<forall>l. settlementTimingLabel st = Some l \<and> l \<noteq> [] \<longrightarrow> settlementTime st intl = Str l)
   \<and> (\<not> truthy_opt truthy_string (settlementTimingLabel st) \<longrightarrow>
        (\<forall>d. intl \<and> internationalDays st = Some d \<and> truthy d \<longrightarrow> settlementTime st intl = d))
   \<and> (\<not> truthy_opt truthy_string (settlementTimingLabel st)
        \<and> \<not> (intl \<and> truthy_opt truthy (internationalDays st)) \<longrightarrow>
        settlementTime st intl = domesticDays st)"
  by (auto simp add: settlementTime_def truthy_opt_def truthy_string_def Let_def
      split: option.splits)

text \<open>
  The label wins over both day counts; without it an international transaction
  shows the international days and a domestic one the domestic days.
\<close>

theorem settlementTime_selection_witness:
  "settlementTime (mk_settlement (Num 2) (Some (Num 5)) (Some ''Typically T+1'')) True
     = Str ''Typically T+1''
   \<and> settlementTime (mk_settlement (Num 2) (Some (Num 5)) None) True = Num 5
   \<and> settlementTime (mk_settlement (Num 2) (Some (Num 5)) None) False = Num 2"
  using settlementTime_selection
      [of "mk_settlement (Num 2) (Some (Num 5)) (Some ''Typically T+1'')" True]
    settlementTime_selection [of "mk_settlement (Num 2) (Some (Num 5)) None" True]
    settlementTime_selection [of "mk_settlement (Num 2) (Some (Num 5)) None" False]
  by (simp add: mk_settlement_def truthy_defs)

text \<open>
  Presence alone does not select a field. A label that is present but empty is
  skipped, and the domestic days are shown instead of the empty label. For a
  scenario typed \<^verbatim>\<open>"International"\<close> whose \<^verbatim>\<open>internationalDays\<close> is the number 0,
  the domestic label is shown instead of that 0.
\<close>

theorem settlementTime_presence_counterexample:
  "settlementTime (mk_settlement (Num 2) None (Some [])) False = Num 2
   \<and> settlementTime (mk_settlement (Num 2) None (Some [])) False \<noteq> Str []
   \<and> isInternational (mk_scenario (Some ''International'') None)
       (mk_economics (mk_feeModel ''flat'')
          (mk_settlement (Str ''1-2 business days'') (Some (Num 0)) None))
   \<and> settlementTime (mk_settlement (Str ''1-2 business days'') (Some (Num 0)) None)
       (isInternational (mk_scenario (Some ''International'') None)
          (mk_economics (mk_feeModel ''flat'')
             (mk_settlement (Str ''1-2 business days'') (Some (Num 0)) None)))
      = Str ''1-2 business days''
   \<and> settlementTime (mk_settlement (Str ''1-2 business days'') (Some (Num 0)) None)
       (isInternational (mk_scenario (Some ''International'') None)
          (mk_economics (mk_feeModel ''flat'')
             (mk_settlement (Str ''1-2 business days'') (Some (Num 0)) None)))
      \<noteq> Num 0"
  by (simp add: settlementTime_def isInternational_def mk_defs truthy_defs)


section \<open>Fee per transaction\<close>

text \<open>
  C6. For every amount, every fee model (whatever its type, and whichever of its
  optional fields are missing) and either value of the internationality flag, the
  fee per transaction is at least 0.
\<close>

theorem feePerTransaction_nonneg: "0 \<le> feePerTransaction amount fm intl"
  by (simp add: feePerTransaction_def Let_def)

theorem feePerTransaction_nonneg_witness:
  "0 \<le> feePerTransaction 50 ((mk_feeModel ''flat'') \<lparr> flat := Some (- 3) \<rparr>) False
   \<and> 0 \<le> feePerTransaction 50 (mk_feeModel ''percent_plus_fixed'') True"
  using feePerTransaction_nonneg [of 50 "(mk_feeModel ''flat'') \<lparr> flat := Some (- 3) \<rparr>" False]
    feePerTransaction_nonneg [of 50 "mk_feeModel ''percent_plus_fixed''" True]
  by simp

text \<open>
  C8. A fee model whose type is none of the six declared ones falls through every
  branch: the fee is exactly 0 for every amount and either flag, and the function
  has a value there (no error is raised).
\<close>

theorem feePerTransaction_unknown_type:
  "fm_type fm \<notin> set FeeModel_types \<Longrightarrow> feePerTransaction amount fm intl = 0"
  by (simp add: feePerTransaction_def FeeModel_types_def)

theorem feePerTransaction_unknown_type_witness:
  "''crypto'' \<notin> set FeeModel_types
   \<and> feePerTransaction 50 ((mk_feeModel ''crypto'') \<lparr> flat := Some 7 \<rparr>) True = 0"
  using feePerTransaction_unknown_type
      [of "(mk_feeModel ''crypto'') \<lparr> flat := Some 7 \<rparr>" 50 True]
  by (simp add: FeeModel_types_def mk_feeModel_def)

text \<open>
  C2. For a fee model of type \<^verbatim>\<open>"percent_plus_fixed_with_cap"\<close>, with a missing
  \<^verbatim>\<open>percent\<close> or \<^verbatim>\<open>fixed\<close> read as 0: when \<^verbatim>\<open>cap\<close> is present the fee is
  \<open>min (amount * percent + fixed) cap\<close> clamped at 0 from below; when \<^verbatim>\<open>cap\<close> is
  missing no cap is applied and the fee is \<open>amount * percent + fixed\<close> clamped at
  0 from below.
\<close>

theorem feePerTransaction_with_cap:
  assumes "fm_type fm = ''percent_plus_fixed_with_cap''"
  shows "feePerTransaction amount fm intl =
     (let p = (case percent fm of None \<Rightarrow> 0 | Some v \<Rightarrow> v);
          f = (case fixed fm of None \<Rightarrow> 0 | Some v \<Rightarrow> v)
      in case cap fm of
           Some c \<Rightarrow> max 0 (min (amount * p + f) c)
         | None \<Rightarrow> max 0 (amount * p + f))"
  using assms
  by (simp add: feePerTransaction_def or_zero_default Let_def split: option.split)

text \<open>
  At 2.9% + 0.30 on an amount of 100 the uncapped fee is 3.20: a cap of 1.80
  brings it to 1.80, and without a cap it stays 3.20.
\<close>

theorem feePerTransaction_with_cap_witness:
  "feePerTransaction 100 card_capped False = 1.80
   \<and> feePerTransaction 100 card_no_cap False = 3.20"
  using feePerTransaction_with_cap [of card_capped 100 False]
    feePerTransaction_with_cap [of card_no_cap 100 False]
  by (simp add: card_capped_def card_no_cap_def mk_feeModel_def)

text \<open>
  A missing cap is not a cap of 0: reading it as 0 would give
  \<open>max 0 (min 3.20 0) = 0\<close>, and the fee computed is 3.20.
\<close>

theorem feePerTransaction_missing_cap_counterexample:
  "cap card_no_cap = None
   \<and> feePerTransaction 100 card_no_cap False = 3.20
   \<and> feePerTransaction 100 card_no_cap False \<noteq> max 0 (min (100 * 0.029 + 0.30) 0)"
  by (simp add: feePerTransaction_def card_no_cap_def mk_feeModel_def or_zero_default)

text \<open>
  C7. For a fee model of type \<^verbatim>\<open>"wire"\<close>, with a missing \<^verbatim>\<open>flat\<close> read as 0: the
  fee is \<open>flat * internationalMultiplier\<close> when the transaction is international
  and the multiplier is present and not 0, and \<open>flat\<close> otherwise (domestic, or the
  multiplier missing or 0); in each case clamped at 0 from below.
\<close>

theorem feePerTransaction_wire:
  assumes "fm_type fm = ''wire''"
  shows "feePerTransaction amount fm intl =
     max 0 ((case flat fm of None \<Rightarrow> 0 | Some v \<Rightarrow> v) *
            (case internationalMultiplier fm of
               None \<Rightarrow> 1
             | Some m \<Rightarrow> if intl \<and> m \<noteq> 0 then m else 1))"
  using assms
  by (simp add: feePerTransaction_def or_zero_default truthy_number_def Let_def
      split: option.split)

theorem feePerTransaction_wire_witness:
  "feePerTransaction 50 (wire_15 (Some 1.25)) True = 18.75
   \<and> feePerTransaction 50 (wire_15 (Some 1.25)) False = 15
   \<and> feePerTransaction 50 (wire_15 None) True = 15"
  using feePerTransaction_wire [of "wire_15 (Some 1.25)" 50 True]
    feePerTransaction_wire [of "wire_15 (Some 1.25)" 50 False]
    feePerTransaction_wire [of "wire_15 None" 50 True]
  by (simp add: wire_15_def mk_feeModel_def)

text \<open>
  A multiplier of 0 is present, and the international fee is still the flat 15
  rather than \<open>15 * 0\<close>; and a negative flat fee is clamped, so the domestic fee is
  0 rather than that flat value.
\<close>

theorem feePerTransaction_wire_counterexample:
  "feePerTransaction 50 (wire_15 (Some 0)) True = 15
   \<and> feePerTransaction 50 (wire_15 (Some 0)) True \<noteq> 15 * 0
   \<and> feePerTransaction 50 ((mk_feeModel ''wire'') \<lparr> flat := Some (- 5) \<rparr>) False = 0
   \<and> feePerTransaction 50 ((mk_feeModel ''wire'') \<lparr> flat := Some (- 5) \<rparr>) False \<noteq> - 5"
  by (simp add: feePerTransaction_def wire_15_def mk_feeModel_def or_zero_default
      truthy_number_def)

text \<open>
  C4. For the fee model \<^verbatim>\<open>{type: "flat_with_international", flatDomestic: 30,
  flatInternational: 50}\<close> the fee per transaction is 50 for every scenario and
  every settlement configuration: when \<^verbatim>\<open>internationalDays\<close> is present, and just
  the same when it is absent and the scenario's \<^verbatim>\<open>transactionType\<close> is not
  \<^verbatim>\<open>"International"\<close>. The type of the fee model is itself the third signal of
  internationality, so the flag is true and \<^verbatim>\<open>flatInternational\<close> is charged.
\<close>

theorem flat_with_international_fee:
  assumes "economics scenario = Some econ" and "feeModel econ = flat_30_50"
  shows "isInternational scenario econ
         \<and> feePerTransaction amount (feeModel econ) (isInternational scenario econ) = 50
         \<and> (\<exists>view. CostTimeSimulator scenario amount monthlyVolume = Some view
                \<and> view_isInternational view \<and> view_feePerTransaction view = 50)"
proof -
  have ty: "fm_type (feeModel econ) = ''flat_with_international''"
    using assms(2) by (simp add: flat_30_50_def mk_feeModel_def)
  have intl: "isInternational scenario econ"
    using ty by (simp add: isInternational_def)
  have fee: "feePerTransaction amount (feeModel econ) True = 50"
    using assms(2)
    by (simp add: feePerTransaction_def flat_30_50_def mk_feeModel_def or_zero_default)
  show ?thesis
    using intl fee CostTimeSimulator_Some [OF assms(1), of amount monthlyVolume]
    by simp
qed

text \<open>
  A scenario typed \<^verbatim>\<open>"Domestic"\<close>, once with international days of 3 and once with
  none: the fee is 50 both times.
\<close>

theorem flat_with_international_fee_witness:
  "feePerTransaction 50 flat_30_50
     (isInternational (mk_scenario (Some ''Domestic'')
        (Some (mk_economics flat_30_50 (mk_settlement (Num 1) (Some (Num 3)) None))))
        (mk_economics flat_30_50 (mk_settlement (Num 1) (Some (Num 3)) None))) = 50
   \<and> feePerTransaction 50 flat_30_50
     (isInternational (mk_scenario (Some ''Domestic'')
        (Some (mk_economics flat_30_50 (mk_settlement (Num 1) None None))))
        (mk_economics flat_30_50 (mk_settlement (Num 1) None None))) = 50"
proof -
  let ?e1 = "mk_economics flat_30_50 (mk_settlement (Num 1) (Some (Num 3)) None)"
  let ?e2 = "mk_economics flat_30_50 (mk_settlement (Num 1) None None)"
  let ?s1 = "mk_scenario (Some ''Domestic'') (Some ?e1)"
  let ?s2 = "mk_scenario (Some ''Domestic'') (Some ?e2)"
  have h1: "economics ?s1 = Some ?e1" and h2: "economics ?s2 = Some ?e2"
    by (simp_all add: mk_scenario_def)
  have f1: "feeModel ?e1 = flat_30_50" and f2: "feeModel ?e2 = flat_30_50"
    by (simp_all add: mk_economics_def)
  have "feePerTransaction 50 (feeModel ?e1) (isInternational ?s1 ?e1) = 50"
    using flat_with_international_fee [OF h1 f1, of 50 200] by blast
  moreover have "feePerTransaction 50 (feeModel ?e2) (isInternational ?s2 ?e2) = 50"
    using flat_with_international_fee [OF h2 f2, of 50 200] by blast
  ultimately show ?thesis
    unfolding f1 f2 by blast
qed

text \<open>
  With no \<^verbatim>\<open>internationalDays\<close> and the scenario typed \<^verbatim>\<open>"Domestic"\<close>, the component
  shows the international badge and a fee of 50, not the domestic 30.
\<close>

theorem flat_with_international_domestic_counterexample:
  "internationalDays (mk_settlement (Num 1) None None) = None
   \<and> transactionType (mk_scenario (Some ''Domestic'')
        (Some (mk_economics flat_30_50 (mk_settlement (Num 1) None None))))
       \<noteq> Some ''International''
   \<and> CostTimeSimulator
       (mk_scenario (Some ''Domestic'')
          (Some (mk_economics flat_30_50 (mk_settlement (Num 1) None None)))) 50 200
       = Some \<lparr> view_isInternational = True, view_feePerTransaction = 50,
                view_monthlyFees = 10000, view_settlementTime = Num 1 \<rparr>
   \<and> feePerTransaction 50 flat_30_50
       (isInternational
          (mk_scenario (Some ''Domestic'')
             (Some (mk_economics flat_30_50 (mk_settlement (Num 1) None None))))
          (mk_economics flat_30_50 (mk_settlement (Num 1) None None)))
       \<noteq> 30"
  by (simp add: CostTimeSimulator_def isInternational_def feePerTransaction_def
      monthlyFees_def settlementTime_def flat_30_50_def mk_defs or_zero_default truthy_defs)


section \<open>Monthly fees and the missing economics\<close>

text \<open>
  C5. For every scenario with an economics configuration, every amount and every
  monthly volume, the simulator renders; the fee it shows is the fee per
  transaction derived from the amount, the fee model and the internationality
  flag, and the monthly fees it shows are that fee multiplied by the monthly
  volume, as an exact product with no rounding step.
\<close>

theorem monthlyFees_is_product:
  assumes "economics scenario = Some econ"
  shows "\<exists>view. CostTimeSimulator scenario amount monthlyVolume = Some view
           \<and> view_feePerTransaction view =
               feePerTransaction amount (feeModel econ) (isInternational scenario econ)
           \<and> view_monthlyFees view =
               feePerTransaction amount (feeModel econ) (isInternational scenario econ)
                 * monthlyVolume
           \<and> view_monthlyFees view = view_feePerTransaction view * monthlyVolume"
  using assms
  by (simp add: CostTimeSimulator_def monthlyFees_def Let_def)

text \<open>
  At the two ends of the volume slider, a capped card fee of 1.80 on 100; and an
  international wire of 15 at 1.25, three times a month.
\<close>

theorem monthlyFees_is_product_witness:
  "(\<exists>view.
      CostTimeSimulator
        (mk_scenario None (Some (mk_economics card_capped (mk_settlement (Num 1) None None))))
        100 1 = Some view
      \<and> view_feePerTransaction view = 1.80 \<and> view_monthlyFees view = 1.80)
   \<and> (\<exists>view.
      CostTimeSimulator
        (mk_scenario None (Some (mk_economics card_capped (mk_settlement (Num 1) None None))))
        100 2000 = Some view
      \<and> view_feePerTransaction view = 1.80 \<and> view_monthlyFees view = 3600)
   \<and> (\<exists>view.
      CostTimeSimulator
        (mk_scenario None
           (Some (mk_economics (wire_15 (Some 1.25))
              (mk_settlement (Num 1) (Some (Num 3)) None))))
        50 3 = Some view
      \<and> view_feePerTransaction view = 18.75 \<and> view_monthlyFees view = 56.25)"
proof -
  let ?e = "mk_economics card_capped (mk_settlement (Num 1) None None)"
  let ?w = "mk_economics (wire_15 (Some 1.25)) (mk_settlement (Num 1) (Some (Num 3)) None)"
  have e: "economics (mk_scenario None (Some ?e)) = Some ?e"
    and w: "economics (mk_scenario None (Some ?w)) = Some ?w"
    by (simp_all add: mk_scenario_def)
  have fe: "feePerTransaction 100 (feeModel ?e) (isInternational (mk_scenario None (Some ?e)) ?e)
            = 1.80"
    by (simp add: feePerTransaction_def isInternational_def card_capped_def mk_defs
        or_zero_default truthy_defs)
  have fw: "feePerTransaction 50 (feeModel ?w) (isInternational (mk_scenario None (Some ?w)) ?w)
            = 18.75"
    by (simp add: feePerTransaction_def isInternational_def wire_15_def mk_defs
        or_zero_default truthy_defs)
  have a: "\<exists>view. CostTimeSimulator (mk_scenario None (Some ?e)) 100 1 = Some view
             \<and> view_feePerTransaction view = 1.80 \<and> view_monthlyFees view = 1.80"
    using monthlyFees_is_product [OF e, of 100 1] unfolding fe by auto
  have b: "\<exists>view. CostTimeSimulator (mk_scenario None (Some ?e)) 100 2000 = Some view
             \<and> view_feePerTransaction view = 1.80 \<and> view_monthlyFees view = 3600"
    using monthlyFees_is_product [OF e, of 100 2000] unfolding fe by auto
  have c: "\<exists>view. CostTimeSimulator (mk_scenario None (Some ?w)) 50 3 = Some view
             \<and> view_feePerTransaction view = 18.75 \<and> view_monthlyFees view = 56.25"
    using monthlyFees_is_product [OF w, of 50 3] unfolding fw by auto
  show ?thesis
    using a b c by blast
qed

text \<open>
  C9. A scenario with no economics configuration makes the component return
  \<^verbatim>\<open>null\<close>: no fee, monthly fee or settlement time is computed, and nothing is
  raised, whatever the amount and the monthly volume.
\<close>

theorem no_economics_returns_null:
  "economics scenario = None \<Longrightarrow> CostTimeSimulator scenario amount monthlyVolume = None"
  by (simp add: CostTimeSimulator_def)

theorem no_economics_returns_null_witness:
  "economics (mk_scenario (Some ''Domestic'') None) = None
   \<and> CostTimeSimulator (mk_scenario (Some ''Domestic'') None) 50 200 = None"
  using no_economics_returns_null [of "mk_scenario (Some ''Domestic'') None" 50 200]
  by (simp add: mk_scenario_def)

end
